theory Spec2Isabelle
  imports Main
begin

section \<open>JavaScript values, objects and errors\<close>

text \<open>
  The route handlers of \<^verbatim>\<open>routes/images.js\<close> read properties of request objects,
  build object literals and hand them to the document store. A value is one of the
  JavaScript values that can occur there; an object is its list of properties in order.
  An ObjectId is the number its twelve bytes denote.
\<close>

type_synonym objectid = nat

datatype jsval =
    JUndefined
  | JNull
  | JBool bool
  | JNum int
  | JStr string
  | JDate nat
  | JOid objectid

type_synonym jsobj = "(string \<times> jsval) list"

text \<open>Property access \<^verbatim>\<open>obj.k\<close>: a property the object lacks reads as undefined.\<close>

definition js_get :: "jsobj \<Rightarrow> string \<Rightarrow> jsval" where
  "js_get obj k = (case map_of obj k of None \<Rightarrow> JUndefined | Some v \<Rightarrow> v)"

fun truthy :: "jsval \<Rightarrow> bool" where
  "truthy JUndefined = False"
| "truthy JNull = False"
| "truthy (JBool b) = b"
| "truthy (JNum n) = (n \<noteq> 0)"
| "truthy (JStr s) = (s \<noteq> [])"
| "truthy (JDate t) = True"
| "truthy (JOid i) = True"

text \<open>The operator \<^verbatim>\<open>a || b\<close>.\<close>

definition js_or :: "jsval \<Rightarrow> jsval \<Rightarrow> jsval" where
  "js_or a b = (if truthy a then a else b)"

datatype js_error =
    TypeError string
  | BSONError string
  | MulterError string
  | MongoNetworkError string
  | MongoServerError string

fun message :: "js_error \<Rightarrow> string" where
  "message (TypeError m) = m"
| "message (BSONError m) = m"
| "message (MulterError m) = m"
| "message (MongoNetworkError m) = m"
| "message (MongoServerError m) = m"

text \<open>Number to string conversion of a non-negative integer, as \<^verbatim>\<open>Date.now() + "-"\<close> does.\<close>

definition digit_char :: "nat \<Rightarrow> char" where
  "digit_char d = ''0123456789'' ! d"

fun string_of_nat :: "nat \<Rightarrow> string" where
  "string_of_nat n =
     (if n < 10 then [digit_char n] else string_of_nat (n div 10) @ [digit_char (n mod 10)])"

declare string_of_nat.simps [simp del]

section \<open>The ObjectId constructor\<close>

text \<open>
  \<^verbatim>\<open>new ObjectId(s)\<close> on a string, as the store's driver has it: a string of 24
  hexadecimal digits (either case) is the identifier of those twelve bytes; any other
  string raises.
\<close>

definition hex_digit :: "char \<Rightarrow> nat option" where
  "hex_digit c =
     (let n = (of_char c :: nat) in
      if 48 \<le> n \<and> n \<le> 57 then Some (n - 48)
      else if 97 \<le> n \<and> n \<le> 102 then Some (n - 87)
      else if 65 \<le> n \<and> n \<le> 70 then Some (n - 55)
      else None)"

fun hex_value :: "string \<Rightarrow> nat \<Rightarrow> nat option" where
  "hex_value [] acc = Some acc"
| "hex_value (c # cs) acc =
     (case hex_digit c of None \<Rightarrow> None | Some d \<Rightarrow> hex_value cs (16 * acc + d))"

definition invalid_id_message :: string where
  "invalid_id_message =
     ''input must be a 24 character hex string, 12 byte Uint8Array, or an integer''"

definition ObjectId :: "string \<Rightarrow> js_error + objectid" where
  "ObjectId s =
     (if length s = 24 then
        (case hex_value s 0 of
           Some n \<Rightarrow> Inr n
         | None \<Rightarrow> Inl (BSONError invalid_id_message))
      else Inl (BSONError invalid_id_message))"

section \<open>Requests, responses and the server's state\<close>

text \<open>
  A file part of a multipart body, and what the upload middleware leaves in
  \<^verbatim>\<open>req.file\<close> once it has stored the part.
\<close>

record upload =
  originalname :: string
  data :: "nat list"

record req_file =
  filename :: string
  path :: string

text \<open>
  A request as it arrives: the \<^verbatim>\<open>:id\<close> segment of its path and its content.
  The content is the members of a JSON object, or the parts of a multipart body (its
  text fields, and its file parts in order, each under its field name), or
  \<open>NoBody\<close>: no body, or one of a type that no middleware of the server parses.
\<close>

datatype content =
    NoBody
  | JsonBody jsobj
  | Multipart jsobj "(string \<times> upload) list"

record request =
  params_id :: string
  content :: content

text \<open>
  What a request reads from its environment: the clock at the time the upload
  middleware names the file (\<^verbatim>\<open>Date.now()\<close>), the clock at the time the handler
  builds the document (\<^verbatim>\<open>new Date()\<close>), and the identifier the driver generates for
  a document inserted without one.
\<close>

record env =
  date_now :: nat
  new_date :: nat
  new_objectid :: objectid

text \<open>
  The durable state: the \<^verbatim>\<open>images\<close> collection in scan order, the files on disk
  by path, and whether the store can be reached.
\<close>

record server =
  images :: "jsobj list"
  uploads :: "(string \<times> nat list) list"
  reachable :: bool

record insert_result =
  acknowledged :: bool
  insertedId :: jsval

record update_result =
  upd_acknowledged :: bool
  matchedCount :: nat
  modifiedCount :: nat
  upsertedCount :: nat
  upsertedId :: jsval

datatype payload =
    Message string
  | ErrorPage js_error
  | InsertOneResult insert_result
  | UpdateResult update_result
  | Document jsobj
  | Documents "jsobj list"

text \<open>
  A response: its status and its body. The handlers answer with JSON; \<open>ErrorPage\<close> is
  the page the framework's own error handler renders for an error a middleware passed on.
\<close>

record response =
  status :: nat
  json :: payload

section \<open>The document store\<close>

text \<open>Setting a key of an association list: in place when present, appended otherwise.\<close>

fun put_key :: "'k \<Rightarrow> 'v \<Rightarrow> ('k \<times> 'v) list \<Rightarrow> ('k \<times> 'v) list" where
  "put_key k v [] = [(k, v)]"
| "put_key k v ((k', v') # kvs) =
     (if k' = k then (k, v) # kvs else (k', v') # put_key k v kvs)"

text \<open>
  The driver's encoding of a document: a property holding undefined is stored as null.
\<close>

fun bson_value :: "jsval \<Rightarrow> jsval" where
  "bson_value JUndefined = JNull"
| "bson_value v = v"

definition serialize :: "jsobj \<Rightarrow> jsobj" where
  "serialize d = map (\<lambda>(k, v). (k, bson_value v)) d"

definition unreachable_message :: string where
  "unreachable_message = ''connect ECONNREFUSED 127.0.0.1:27017''"

definition duplicate_key_message :: string where
  "duplicate_key_message = ''E11000 duplicate key error collection: imageDB.images''"

definition has_id :: "objectid \<Rightarrow> jsobj \<Rightarrow> bool" where
  "has_id i d = (map_of d ''_id'' = Some (JOid i))"

text \<open>
  \<^verbatim>\<open>insertOne(doc)\<close>: a document without \<^verbatim>\<open>_id\<close> gets the generated one; the
  collection refuses a second document with an \<^verbatim>\<open>_id\<close> it already holds.
\<close>

definition assign_id :: "objectid \<Rightarrow> jsobj \<Rightarrow> jsobj" where
  "assign_id g d = (case map_of d ''_id'' of None \<Rightarrow> (''_id'', JOid g) # d | Some v \<Rightarrow> d)"

definition insertOne :: "objectid \<Rightarrow> jsobj \<Rightarrow> server \<Rightarrow> js_error + (insert_result \<times> server)" where
  "insertOne g doc s =
     (if \<not> reachable s then Inl (MongoNetworkError unreachable_message)
      else
        let d = serialize (assign_id g doc) in
        if js_get d ''_id'' \<in> set (map (\<lambda>x. js_get x ''_id'') (images s))
        then Inl (MongoServerError duplicate_key_message)
        else Inr (\<lparr>acknowledged = True, insertedId = js_get d ''_id''\<rparr>,
                  s\<lparr>images := images s @ [d]\<rparr>))"

text \<open>\<^verbatim>\<open>find().toArray()\<close> and \<^verbatim>\<open>findOne({_id: i})\<close>.\<close>

definition find_toArray :: "server \<Rightarrow> js_error + jsobj list" where
  "find_toArray s =
     (if \<not> reachable s then Inl (MongoNetworkError unreachable_message)
      else Inr (images s))"

definition findOne :: "objectid \<Rightarrow> server \<Rightarrow> js_error + jsobj option" where
  "findOne i s =
     (if \<not> reachable s then Inl (MongoNetworkError unreachable_message)
      else Inr (find (has_id i) (images s)))"

text \<open>
  \<^verbatim>\<open>updateOne({_id: i}, {$set: upd})\<close>: the first document with that identifier gets
  every key of \<^verbatim>\<open>upd\<close> set, in order; without a match nothing changes (no upsert).
\<close>

fun apply_set :: "jsobj \<Rightarrow> jsobj \<Rightarrow> jsobj" where
  "apply_set [] d = d"
| "apply_set ((k, v) # kvs) d = apply_set kvs (put_key k v d)"

fun update_first :: "('a \<Rightarrow> bool) \<Rightarrow> ('a \<Rightarrow> 'a) \<Rightarrow> 'a list \<Rightarrow> 'a list" where
  "update_first P f [] = []"
| "update_first P f (x # xs) = (if P x then f x # xs else x # update_first P f xs)"

definition updateOne :: "objectid \<Rightarrow> jsobj \<Rightarrow> server \<Rightarrow> js_error + (update_result \<times> server)" where
  "updateOne i upd s =
     (if \<not> reachable s then Inl (MongoNetworkError unreachable_message)
      else
        (case find (has_id i) (images s) of
           None \<Rightarrow>
             Inr (\<lparr>upd_acknowledged = True, matchedCount = 0, modifiedCount = 0,
                   upsertedCount = 0, upsertedId = JNull\<rparr>, s)
         | Some d \<Rightarrow>
             Inr (\<lparr>upd_acknowledged = True, matchedCount = 1,
                   modifiedCount = (if apply_set (serialize upd) d = d then 0 else 1),
                   upsertedCount = 0, upsertedId = JNull\<rparr>,
                  s\<lparr>images := update_first (has_id i) (apply_set (serialize upd)) (images s)\<rparr>)))"

section \<open>The middleware\<close>

text \<open>
  \<^verbatim>\<open>app.use(express.json())\<close> of \<^verbatim>\<open>server.js\<close>: \<^verbatim>\<open>req.body\<close> holds the members
  of a JSON body and stays undefined for any other request.
\<close>

definition express_json :: "request \<Rightarrow> jsobj option" where
  "express_json req = (case content req of JsonBody b \<Rightarrow> Some b | _ \<Rightarrow> None)"

text \<open>
  \<^verbatim>\<open>multer.diskStorage({destination: "uploads/", filename: ...})\<close>: a file is written
  under the destination directory, under the name the callback returns; a file already
  at that path is replaced.
\<close>

definition destination :: string where
  "destination = ''uploads/''"

definition storage_filename :: "nat \<Rightarrow> upload \<Rightarrow> string" where
  "storage_filename now file = string_of_nat now @ ''-'' @ originalname file"

definition unexpected_field_message :: string where
  "unexpected_field_message = ''Unexpected field''"

fun remove_key :: "'k \<Rightarrow> ('k \<times> 'v) list \<Rightarrow> ('k \<times> 'v) list" where
  "remove_key k [] = []"
| "remove_key k ((k', v') # kvs) = (if k' = k then remove_key k kvs else (k', v') # remove_key k kvs)"

text \<open>
  \<^verbatim>\<open>upload.single("image")\<close> over the file parts in order: the first part named
  \<^verbatim>\<open>image\<close> is stored and becomes \<^verbatim>\<open>req.file\<close>; a part under another name, or a
  second part named \<^verbatim>\<open>image\<close>, is refused with an error, and the file stored for
  this request so far is removed again.
\<close>

fun store_files ::
  "nat \<Rightarrow> (string \<times> upload) list \<Rightarrow> req_file option \<Rightarrow> (string \<times> nat list) list \<Rightarrow>
     (js_error + req_file option) \<times> (string \<times> nat list) list" where
  "store_files now [] file ups = (Inr file, ups)"
| "store_files now ((fname, f) # rest) file ups =
     (if fname = ''image'' \<and> file = None then
        (let fn = storage_filename now f; p = destination @ fn
         in store_files now rest (Some \<lparr>filename = fn, path = p\<rparr>) (put_key p (data f) ups))
      else (Inl (MulterError unexpected_field_message),
            (case file of None \<Rightarrow> ups | Some u \<Rightarrow> remove_key (path u) ups)))"

text \<open>
  The middleware of the create route. For a multipart body \<^verbatim>\<open>req.body\<close> becomes the
  text fields and the file parts are handled as above; any other request passes
  through as \<^verbatim>\<open>express.json()\<close> left it, with \<^verbatim>\<open>req.file\<close> undefined.
\<close>

definition upload_single ::
  "env \<Rightarrow> request \<Rightarrow> server \<Rightarrow> (js_error + jsobj option \<times> req_file option) \<times> server" where
  "upload_single e req s =
     (case content req of
        Multipart flds files \<Rightarrow>
          (case store_files (date_now e) files None (uploads s) of
             (Inl err, ups) \<Rightarrow> (Inl err, s\<lparr>uploads := ups\<rparr>)
           | (Inr file, ups) \<Rightarrow> (Inr (Some flds, file), s\<lparr>uploads := ups\<rparr>))
      | _ \<Rightarrow> (Inr (express_json req, None), s))"

section \<open>The route handlers\<close>

text \<open>The message of the TypeError that reading a property of undefined raises.\<close>

definition cannot_read :: "string \<Rightarrow> string" where
  "cannot_read p =
     ''Cannot read properties of undefined (reading '' @ [CHR 0x27] @ p @ [CHR 0x27] @ '')''"

text \<open>
  The object literal \<^verbatim>\<open>imageData\<close> of the create handler, for a defined
  \<^verbatim>\<open>req.body\<close> and a defined \<^verbatim>\<open>req.file\<close>.
\<close>

definition imageData :: "env \<Rightarrow> jsobj \<Rightarrow> req_file \<Rightarrow> jsobj" where
  "imageData e b file =
     [(''name'', js_get b ''name''),
      (''type'', js_get b ''type''),
      (''description'', js_get b ''description''),
      (''color'', js_or (js_get b ''color'') (JStr [])),
      (''lifeSpan'', js_or (js_get b ''lifeSpan'') (JStr [])),
      (''imagePath'', JStr (''/uploads/'' @ filename file)),
      (''createdAt'', JDate (new_date e))]"

text \<open>
  \<^verbatim>\<open>router.post("/", upload.single("image"), ...)\<close>: the middleware runs first, and
  an error it raises is answered by the framework's error handler, with status 500,
  without the handler running. In the handler's \<^verbatim>\<open>try\<close> block the object literal
  is evaluated in order: reading \<^verbatim>\<open>req.body.name\<close> of an undefined body raises, then
  reading \<^verbatim>\<open>req.file.filename\<close> of an undefined file raises, both before the store
  is called.
\<close>

definition post_image :: "env \<Rightarrow> request \<Rightarrow> server \<Rightarrow> response \<times> server" where
  "post_image e req s =
     (case upload_single e req s of
        (Inl err, s1) \<Rightarrow> (\<lparr>status = 500, json = ErrorPage err\<rparr>, s1)
      | (Inr (body, file), s1) \<Rightarrow>
          (case (case body of
                   None \<Rightarrow> Inl (TypeError (cannot_read ''name''))
                 | Some b \<Rightarrow>
                     (case file of
                        None \<Rightarrow> Inl (TypeError (cannot_read ''filename''))
                      | Some f \<Rightarrow> insertOne (new_objectid e) (imageData e b f) s1)) of
             Inl err \<Rightarrow> (\<lparr>status = 500, json = Message (message err)\<rparr>, s1)
           | Inr (result, s2) \<Rightarrow> (\<lparr>status = 201, json = InsertOneResult result\<rparr>, s2)))"

text \<open>\<^verbatim>\<open>router.get("/", ...)\<close>\<close>

definition get_images :: "request \<Rightarrow> server \<Rightarrow> response \<times> server" where
  "get_images req s =
     (case find_toArray s of
        Inl err \<Rightarrow> (\<lparr>status = 500, json = Message (message err)\<rparr>, s)
      | Inr docs \<Rightarrow> (\<lparr>status = 200, json = Documents docs\<rparr>, s))"

text \<open>\<^verbatim>\<open>router.get("/:id", ...)\<close>\<close>

definition get_image :: "request \<Rightarrow> server \<Rightarrow> response \<times> server" where
  "get_image req s =
     (case (case ObjectId (params_id req) of
              Inl err \<Rightarrow> Inl err
            | Inr i \<Rightarrow> findOne i s) of
        Inl err \<Rightarrow> (\<lparr>status = 500, json = Message (message err)\<rparr>, s)
      | Inr None \<Rightarrow> (\<lparr>status = 404, json = Message ''Image not found''\<rparr>, s)
      | Inr (Some doc) \<Rightarrow> (\<lparr>status = 200, json = Document doc\<rparr>, s))"

text \<open>
  The \<^verbatim>\<open>$set\<close> document of the update handler, for a defined \<^verbatim>\<open>req.body\<close>.
\<close>

definition update_set :: "jsobj \<Rightarrow> jsobj" where
  "update_set b =
     [(''name'', js_get b ''name''),
      (''type'', js_get b ''type''),
      (''description'', js_get b ''description''),
      (''color'', js_get b ''color''),
      (''lifespan'', js_get b ''lifespan'')]"

text \<open>
  \<^verbatim>\<open>router.put("/:id", ...)\<close>: the arguments of \<^verbatim>\<open>updateOne\<close> are evaluated in
  order inside the \<^verbatim>\<open>try\<close> block, the filter with its \<^verbatim>\<open>new ObjectId\<close> first,
  then the \<^verbatim>\<open>$set\<close> document, whose first property \<^verbatim>\<open>req.body.name\<close> raises when
  no JSON body was parsed.
\<close>

definition put_image :: "request \<Rightarrow> server \<Rightarrow> response \<times> server" where
  "put_image req s =
     (case (case ObjectId (params_id req) of
              Inl err \<Rightarrow> Inl err
            | Inr i \<Rightarrow>
                (case express_json req of
                   None \<Rightarrow> Inl (TypeError (cannot_read ''name''))
                 | Some b \<Rightarrow> updateOne i (update_set b) s)) of
        Inl err \<Rightarrow> (\<lparr>status = 500, json = Message (message err)\<rparr>, s)
      | Inr (result, s') \<Rightarrow> (\<lparr>status = 200, json = UpdateResult result\<rparr>, s'))"

section \<open>Facts about objects and the store\<close>

lemma map_of_put_key: "map_of (put_key k v d) = (map_of d)(k \<mapsto> v)"
  by (induction k v d rule: put_key.induct) auto

lemma map_of_apply_set_other:
  "k \<notin> fst ` set upd \<Longrightarrow> map_of (apply_set upd d) k = map_of d k"
  by (induction upd d rule: apply_set.induct) (auto simp: map_of_put_key)

lemma length_update_first: "length (update_first P f xs) = length xs"
  by (induction xs) auto

lemma find_update_first:
  "(\<And>x. P x \<Longrightarrow> P (f x)) \<Longrightarrow> find P (update_first P f xs) = map_option f (find P xs)"
  by (induction xs) auto

lemma nth_update_first:
  "j < length xs \<Longrightarrow> update_first P f xs ! j = xs ! j \<or> update_first P f xs ! j = f (xs ! j)"
  by (induction xs arbitrary: j) (auto simp: nth_Cons split: nat.splits)

lemma find_has_id:
  "find (has_id i) ds = Some d \<Longrightarrow> d \<in> set ds \<and> js_get d ''_id'' = JOid i"
  by (auto simp: find_Some_iff has_id_def js_get_def)

lemma bson_value_js_or: "bson_value (js_or a (JStr [])) = js_or a (JStr [])"
  by (cases a) (simp_all add: js_or_def)

lemma ObjectId_error:
  "ObjectId str = Inl err \<Longrightarrow> err = BSONError invalid_id_message"
  by (auto simp: ObjectId_def split: if_splits option.splits)

lemma ObjectId_example: "ObjectId ''000000000000000000000abc'' = Inr 2748"
  by (simp add: ObjectId_def hex_digit_def)

section \<open>Stored file names\<close>

text \<open>
  The name a stored file gets determines the arrival time and the original name it was
  built from: the decimal numeral has no hyphen, so the first hyphen ends it. Two names
  are equal exactly when both the millisecond and the original name are.
\<close>

lemma string_of_nat_example: "string_of_nat 1700000000000 = ''1700000000000''"
  by (simp add: string_of_nat.simps digit_char_def)

lemma digit_cases:
  "d < 10 \<Longrightarrow> d = 0 \<or> d = 1 \<or> d = 2 \<or> d = 3 \<or> d = 4 \<or> d = 5 \<or> d = 6 \<or> d = 7 \<or> d = 8 \<or> d = (9::nat)"
  by arith

lemma of_char_digit_char: "d < 10 \<Longrightarrow> of_char (digit_char d) = 48 + d"
  by (drule digit_cases, elim disjE) (simp_all add: digit_char_def)

lemma digit_char_neq_hyphen: "d < 10 \<Longrightarrow> digit_char d \<noteq> CHR ''-''"
  by (drule digit_cases, elim disjE) (simp_all add: digit_char_def)

lemma digit_char_inj:
  assumes "a < 10" and "b < 10" and "digit_char a = digit_char b"
  shows "a = b"
proof -
  from assms(3) have "(of_char (digit_char a) :: nat) = of_char (digit_char b)"
    by simp
  with assms(1,2) show ?thesis
    by (simp add: of_char_digit_char)
qed

lemma string_of_nat_nonempty: "string_of_nat n \<noteq> []"
  by (subst string_of_nat.simps) simp

lemma hyphen_notin_string_of_nat: "CHR ''-'' \<notin> set (string_of_nat n)"
proof (induction n rule: string_of_nat.induct)
  case (1 n)
  show ?case
  proof (cases "n < 10")
    case True
    then show ?thesis
      using digit_char_neq_hyphen [of n] by (subst string_of_nat.simps) auto
  next
    case False
    moreover have "n mod 10 < 10" by simp
    ultimately show ?thesis
      using 1 digit_char_neq_hyphen [of "n mod 10"] by (subst string_of_nat.simps) auto
  qed
qed

lemma string_of_nat_inj: "string_of_nat m = string_of_nat n \<Longrightarrow> m = n"
proof (induction m arbitrary: n rule: string_of_nat.induct)
  case (1 m)
  show ?case
  proof (cases "m < 10")
    case m: True
    show ?thesis
    proof (cases "n < 10")
      case True
      with m 1(2) show ?thesis
        using digit_char_inj [of m n]
        by (simp add: string_of_nat.simps [of m] string_of_nat.simps [of n])
    next
      case False
      with m 1(2) show ?thesis
        using string_of_nat_nonempty [of "n div 10"]
        by (simp add: string_of_nat.simps [of m] string_of_nat.simps [of n])
    qed
  next
    case m: False
    show ?thesis
    proof (cases "n < 10")
      case True
      with m 1(2) show ?thesis
        using string_of_nat_nonempty [of "m div 10"]
        by (simp add: string_of_nat.simps [of m] string_of_nat.simps [of n])
    next
      case False
      with m 1(2) have "string_of_nat (m div 10) = string_of_nat (n div 10)"
        and d: "digit_char (m mod 10) = digit_char (n mod 10)"
        by (simp_all add: string_of_nat.simps [of m] string_of_nat.simps [of n])
      with 1(1) m have "m div 10 = n div 10" by blast
      moreover from d have "m mod 10 = n mod 10"
        by (rule digit_char_inj [rotated 2]) simp_all
      ultimately show ?thesis
        by (metis div_mult_mod_eq)
    qed
  qed
qed

lemma split_at_first:
  "c \<notin> set a \<Longrightarrow> c \<notin> set b \<Longrightarrow> a @ c # x = b @ c # y \<Longrightarrow> a = b \<and> x = y"
proof (induction a arbitrary: b)
  case Nil
  then show ?case by (cases b) auto
next
  case (Cons h a)
  then show ?case by (cases b) auto
qed

lemma storage_filename_eq_iff:
  "storage_filename t1 f1 = storage_filename t2 f2 \<longleftrightarrow>
     t1 = t2 \<and> originalname f1 = originalname f2"
proof
  assume "storage_filename t1 f1 = storage_filename t2 f2"
  then have "string_of_nat t1 @ CHR ''-'' # originalname f1 =
      string_of_nat t2 @ CHR ''-'' # originalname f2"
    by (simp add: storage_filename_def)
  then have "string_of_nat t1 = string_of_nat t2 \<and> originalname f1 = originalname f2"
    by (rule split_at_first [OF hyphen_notin_string_of_nat hyphen_notin_string_of_nat])
  then show "t1 = t2 \<and> originalname f1 = originalname f2"
    by (auto dest: string_of_nat_inj)
next
  assume "t1 = t2 \<and> originalname f1 = originalname f2"
  then show "storage_filename t1 f1 = storage_filename t2 f2"
    by (simp add: storage_filename_def)
qed

section \<open>Create\<close>

lemma upload_single_image:
  "content req = Multipart flds [(''image'', f)] \<Longrightarrow>
   upload_single e req s =
     (Inr (Some flds,
           Some \<lparr>filename = storage_filename (date_now e) f,
                 path = destination @ storage_filename (date_now e) f\<rparr>),
      s\<lparr>uploads := put_key (destination @ storage_filename (date_now e) f) (data f) (uploads s)\<rparr>)"
  by (simp add: upload_single_def Let_def)

lemma store_files_no_image:
  "''image'' \<notin> set (map fst files) \<Longrightarrow>
   store_files now files None ups =
     (if files = [] then Inr None else Inl (MulterError unexpected_field_message), ups)"
  by (cases files) auto

lemma post_image_stored:
  assumes "content req = Multipart flds [(''image'', f)]" and "reachable s"
    and "JOid (new_objectid e) \<notin> set (map (\<lambda>x. js_get x ''_id'') (images s))"
  shows "post_image e req s =
     (\<lparr>status = 201,
       json = InsertOneResult \<lparr>acknowledged = True, insertedId = JOid (new_objectid e)\<rparr>\<rparr>,
      s\<lparr>images := images s @
           [[(''_id'', JOid (new_objectid e)),
             (''name'', bson_value (js_get flds ''name'')),
             (''type'', bson_value (js_get flds ''type'')),
             (''description'', bson_value (js_get flds ''description'')),
             (''color'', bson_value (js_or (js_get flds ''color'') (JStr []))),
             (''lifeSpan'', bson_value (js_or (js_get flds ''lifeSpan'') (JStr []))),
             (''imagePath'', JStr (''/uploads/'' @ storage_filename (date_now e) f)),
             (''createdAt'', JDate (new_date e))]],
        uploads := put_key (destination @ storage_filename (date_now e) f) (data f) (uploads s)\<rparr>)"
  using assms
  by (simp add: post_image_def upload_single_image imageData_def insertOne_def assign_id_def
      serialize_def js_get_def)

lemma post_image_no_file:
  "content req = Multipart flds [] \<Longrightarrow>
   post_image e req s = (\<lparr>status = 500, json = Message (cannot_read ''filename'')\<rparr>, s)"
  by (simp add: post_image_def upload_single_def)

lemma post_image_unexpected_field:
  assumes "content req = Multipart flds files" and "files \<noteq> []"
    and "''image'' \<notin> set (map fst files)"
  shows "post_image e req s =
     (\<lparr>status = 500, json = ErrorPage (MulterError unexpected_field_message)\<rparr>, s)"
  using assms(1,2) store_files_no_image [OF assms(3), of "date_now e" "uploads s"]
  by (simp add: post_image_def upload_single_def)

lemma post_image_no_body:
  "content req = NoBody \<Longrightarrow>
   post_image e req s = (\<lparr>status = 500, json = Message (cannot_read ''name'')\<rparr>, s)"
  by (simp add: post_image_def upload_single_def express_json_def)

lemma post_image_file_on_disk:
  assumes "content req = Multipart flds [(''image'', f)]"
  shows "map_of (uploads (snd (post_image e req s)))
           (destination @ storage_filename (date_now e) f) = Some (data f)"
proof -
  let ?s1 = "s\<lparr>uploads :=
      put_key (destination @ storage_filename (date_now e) f) (data f) (uploads s)\<rparr>"
  have "uploads (snd (post_image e req s)) = uploads ?s1"
    using assms
    by (simp add: post_image_def upload_single_image insertOne_def Let_def)
  then show ?thesis
    by (simp add: map_of_put_key)
qed

text \<open>
  C1. A create request that carries the file part \<^verbatim>\<open>image\<close> and text fields, on a
  reachable store that does not hold the generated identifier yet, is answered 201 with
  the insert acknowledgment (\<^verbatim>\<open>acknowledged: true\<close> and the generated id), and the
  collection gains exactly one document: \<^verbatim>\<open>name\<close>, \<^verbatim>\<open>type\<close> and
  \<^verbatim>\<open>description\<close> are the body's (a text value is stored as it is), \<^verbatim>\<open>color\<close>
  and \<^verbatim>\<open>lifeSpan\<close> are the empty string when the body lacks them, \<^verbatim>\<open>imagePath\<close>
  is \<^verbatim>\<open>/uploads/\<close> followed by the stored file name, and \<^verbatim>\<open>createdAt\<close> is the
  creation time.
\<close>

theorem post_image_inserts_one_document:
  assumes "content req = Multipart flds [(''image'', f)]" and "reachable s"
    and "JOid (new_objectid e) \<notin> set (map (\<lambda>x. js_get x ''_id'') (images s))"
  shows "\<exists>d s'. post_image e req s =
       (\<lparr>status = 201,
         json = InsertOneResult \<lparr>acknowledged = True, insertedId = JOid (new_objectid e)\<rparr>\<rparr>, s') \<and>
     images s' = images s @ [d] \<and>
     d = [(''_id'', JOid (new_objectid e)),
          (''name'', bson_value (js_get flds ''name'')),
          (''type'', bson_value (js_get flds ''type'')),
          (''description'', bson_value (js_get flds ''description'')),
          (''color'', js_or (js_get flds ''color'') (JStr [])),
          (''lifeSpan'', js_or (js_get flds ''lifeSpan'') (JStr [])),
          (''imagePath'', JStr (''/uploads/'' @ storage_filename (date_now e) f)),
          (''createdAt'', JDate (new_date e))] \<and>
     (map_of flds ''color'' = None \<longrightarrow> js_get d ''color'' = JStr []) \<and>
     (map_of flds ''lifeSpan'' = None \<longrightarrow> js_get d ''lifeSpan'' = JStr []) \<and>
     (\<forall>k \<in> set [''name'', ''type'', ''description''].
        \<forall>v. map_of flds k = Some (JStr v) \<longrightarrow> js_get d k = JStr v)"
proof -
  let ?d = "[(''_id'', JOid (new_objectid e)),
          (''name'', bson_value (js_get flds ''name'')),
          (''type'', bson_value (js_get flds ''type'')),
          (''description'', bson_value (js_get flds ''description'')),
          (''color'', js_or (js_get flds ''color'') (JStr [])),
          (''lifeSpan'', js_or (js_get flds ''lifeSpan'') (JStr [])),
          (''imagePath'', JStr (''/uploads/'' @ storage_filename (date_now e) f)),
          (''createdAt'', JDate (new_date e))]"
  let ?s' = "s\<lparr>images := images s @ [?d],
        uploads := put_key (destination @ storage_filename (date_now e) f) (data f) (uploads s)\<rparr>"
  have run: "post_image e req s =
       (\<lparr>status = 201,
         json = InsertOneResult \<lparr>acknowledged = True, insertedId = JOid (new_objectid e)\<rparr>\<rparr>, ?s')"
    using post_image_stored [OF assms] by (simp only: bson_value_js_or)
  have coll: "images ?s' = images s @ [?d]"
    by simp
  have color: "map_of flds ''color'' = None \<longrightarrow> js_get ?d ''color'' = JStr []"
    by (simp add: js_get_def js_or_def)
  have life: "map_of flds ''lifeSpan'' = None \<longrightarrow> js_get ?d ''lifeSpan'' = JStr []"
    by (simp add: js_get_def js_or_def)
  have strs: "\<forall>k \<in> set [''name'', ''type'', ''description''].
        \<forall>v. map_of flds k = Some (JStr v) \<longrightarrow> js_get ?d k = JStr v"
    by (simp add: js_get_def)
  show ?thesis
    by (rule exI [of _ ?d], rule exI [of _ ?s']) (intro conjI run coll color life strs refl)
qed

theorem post_image_inserts_one_document_witness:
  "content \<lparr>params_id = [],
       content = Multipart
         [(''name'', JStr ''toucan''), (''type'', JStr ''bird''),
          (''color'', JStr ''black with colorful beak''),
          (''description'', JStr ''A tropical bird with a large beak''),
          (''lifespan'', JStr ''15-20 years'')]
         [(''image'', \<lparr>originalname = ''toucan.jpg'', data = [255, 216, 255]\<rparr>)]\<rparr> =
     Multipart
         [(''name'', JStr ''toucan''), (''type'', JStr ''bird''),
          (''color'', JStr ''black with colorful beak''),
          (''description'', JStr ''A tropical bird with a large beak''),
          (''lifespan'', JStr ''15-20 years'')]
         [(''image'', \<lparr>originalname = ''toucan.jpg'', data = [255, 216, 255]\<rparr>)] \<and>
   reachable \<lparr>images = [], uploads = [], reachable = True\<rparr> \<and>
   JOid (new_objectid \<lparr>date_now = 1700000000000, new_date = 1700000000005, new_objectid = 2748\<rparr>)
     \<notin> set (map (\<lambda>x. js_get x ''_id'') (images \<lparr>images = [], uploads = [], reachable = True\<rparr>)) \<and>
   fst (post_image \<lparr>date_now = 1700000000000, new_date = 1700000000005, new_objectid = 2748\<rparr>
      \<lparr>params_id = [],
       content = Multipart
         [(''name'', JStr ''toucan''), (''type'', JStr ''bird''),
          (''color'', JStr ''black with colorful beak''),
          (''description'', JStr ''A tropical bird with a large beak''),
          (''lifespan'', JStr ''15-20 years'')]
         [(''image'', \<lparr>originalname = ''toucan.jpg'', data = [255, 216, 255]\<rparr>)]\<rparr>
      \<lparr>images = [], uploads = [], reachable = True\<rparr>) =
     \<lparr>status = 201, json = InsertOneResult \<lparr>acknowledged = True, insertedId = JOid 2748\<rparr>\<rparr> \<and>
   images (snd (post_image \<lparr>date_now = 1700000000000, new_date = 1700000000005, new_objectid = 2748\<rparr>
      \<lparr>params_id = [],
       content = Multipart
         [(''name'', JStr ''toucan''), (''type'', JStr ''bird''),
          (''color'', JStr ''black with colorful beak''),
          (''description'', JStr ''A tropical bird with a large beak''),
          (''lifespan'', JStr ''15-20 years'')]
         [(''image'', \<lparr>originalname = ''toucan.jpg'', data = [255, 216, 255]\<rparr>)]\<rparr>
      \<lparr>images = [], uploads = [], reachable = True\<rparr>)) =
     [[(''_id'', JOid 2748), (''name'', JStr ''toucan''), (''type'', JStr ''bird''),
       (''description'', JStr ''A tropical bird with a large beak''),
       (''color'', JStr ''black with colorful beak''), (''lifeSpan'', JStr []),
       (''imagePath'', JStr ''/uploads/1700000000000-toucan.jpg''),
       (''createdAt'', JDate 1700000000005)]]"
  (is "?h1 \<and> ?h2 \<and> ?h3 \<and> ?c1 \<and> ?c2")
proof -
  have h1: ?h1 by simp
  have h2: ?h2 by simp
  have h3: ?h3 by simp
  from post_image_inserts_one_document [OF h1 h2 h3] obtain d s'
    where "post_image \<lparr>date_now = 1700000000000, new_date = 1700000000005, new_objectid = 2748\<rparr>
      \<lparr>params_id = [],
       content = Multipart
         [(''name'', JStr ''toucan''), (''type'', JStr ''bird''),
          (''color'', JStr ''black with colorful beak''),
          (''description'', JStr ''A tropical bird with a large beak''),
          (''lifespan'', JStr ''15-20 years'')]
         [(''image'', \<lparr>originalname = ''toucan.jpg'', data = [255, 216, 255]\<rparr>)]\<rparr>
      \<lparr>images = [], uploads = [], reachable = True\<rparr> =
       (\<lparr>status = 201,
         json = InsertOneResult \<lparr>acknowledged = True, insertedId =
           JOid (new_objectid \<lparr>date_now = 1700000000000, new_date = 1700000000005, new_objectid = 2748\<rparr>)\<rparr>\<rparr>, s')"
      and "images s' = images \<lparr>images = [], uploads = [], reachable = True\<rparr> @ [d]"
      and "d = [(''_id'', JOid 2748), (''name'', JStr ''toucan''), (''type'', JStr ''bird''),
       (''description'', JStr ''A tropical bird with a large beak''),
       (''color'', JStr ''black with colorful beak''), (''lifeSpan'', JStr []),
       (''imagePath'', JStr ''/uploads/1700000000000-toucan.jpg''),
       (''createdAt'', JDate 1700000000005)]"
    by (simp add: js_get_def js_or_def storage_filename_def string_of_nat_example) blast
  then have "?c1 \<and> ?c2" by simp
  with h1 h2 h3 show ?thesis by blast
qed

text \<open>
  C9. The create handler validates nothing: whatever the text fields are, the request
  above is answered 201 and one document is inserted; a required field (\<^verbatim>\<open>name\<close>,
  \<^verbatim>\<open>type\<close> or \<^verbatim>\<open>description\<close>) the body lacks is stored as null, the store's
  encoding of undefined.
\<close>

theorem post_image_no_validation:
  assumes "content req = Multipart flds [(''image'', f)]" and "reachable s"
    and "JOid (new_objectid e) \<notin> set (map (\<lambda>x. js_get x ''_id'') (images s))"
  shows "\<exists>d s'. post_image e req s =
       (\<lparr>status = 201,
         json = InsertOneResult \<lparr>acknowledged = True, insertedId = JOid (new_objectid e)\<rparr>\<rparr>, s') \<and>
     images s' = images s @ [d] \<and>
     (\<forall>k \<in> set [''name'', ''type'', ''description''].
        map_of flds k = None \<longrightarrow> map_of d k = Some JNull)"
  using post_image_stored [OF assms]
  by (simp add: js_get_def)

theorem post_image_no_validation_witness:
  "content \<lparr>params_id = [],
       content = Multipart [(''color'', JStr ''grey'')]
         [(''image'', \<lparr>originalname = ''cat.jpg'', data = [1, 2, 3]\<rparr>)]\<rparr> =
     Multipart [(''color'', JStr ''grey'')]
         [(''image'', \<lparr>originalname = ''cat.jpg'', data = [1, 2, 3]\<rparr>)] \<and>
   reachable \<lparr>images = [], uploads = [], reachable = True\<rparr> \<and>
   JOid (new_objectid \<lparr>date_now = 1700000000000, new_date = 1700000000005, new_objectid = 2748\<rparr>)
     \<notin> set (map (\<lambda>x. js_get x ''_id'') (images \<lparr>images = [], uploads = [], reachable = True\<rparr>)) \<and>
   map_of [(''color'', JStr ''grey'')] ''name'' = None \<and>
   (\<exists>d s'. post_image \<lparr>date_now = 1700000000000, new_date = 1700000000005, new_objectid = 2748\<rparr>
      \<lparr>params_id = [],
       content = Multipart [(''color'', JStr ''grey'')]
         [(''image'', \<lparr>originalname = ''cat.jpg'', data = [1, 2, 3]\<rparr>)]\<rparr>
      \<lparr>images = [], uploads = [], reachable = True\<rparr> =
       (\<lparr>status = 201, json = InsertOneResult \<lparr>acknowledged = True, insertedId = JOid 2748\<rparr>\<rparr>, s') \<and>
     images s' = [d] \<and> map_of d ''name'' = Some JNull \<and> map_of d ''type'' = Some JNull \<and>
     map_of d ''description'' = Some JNull)"
  (is "?h1 \<and> ?h2 \<and> ?h3 \<and> ?h4 \<and> ?c")
proof -
  have h1: ?h1 by simp
  have h2: ?h2 by simp
  have h3: ?h3 by simp
  have h4: ?h4 by simp
  from post_image_no_validation [OF h1 h2 h3] have ?c by simp
  with h1 h2 h3 h4 show ?thesis by blast
qed

text \<open>
  C8, as stated, fails for a multipart body whose file part has another field name: the
  upload middleware refuses the part, the handler never runs, and the answer is the
  framework's error page, not the handler's JSON message about \<^verbatim>\<open>req.file\<close>.
\<close>

theorem post_image_other_field_counterexample:
  "content \<lparr>params_id = [],
       content = Multipart [(''name'', JStr ''Cat'')]
         [(''photo'', \<lparr>originalname = ''cat.jpg'', data = [1, 2, 3]\<rparr>)]\<rparr> =
     Multipart [(''name'', JStr ''Cat'')]
         [(''photo'', \<lparr>originalname = ''cat.jpg'', data = [1, 2, 3]\<rparr>)] \<and>
   ''image'' \<notin> set (map fst [(''photo'', \<lparr>originalname = ''cat.jpg'', data = [1, 2, 3]\<rparr>)]) \<and>
   post_image \<lparr>date_now = 1700000000000, new_date = 1700000000005, new_objectid = 2748\<rparr>
      \<lparr>params_id = [],
       content = Multipart [(''name'', JStr ''Cat'')]
         [(''photo'', \<lparr>originalname = ''cat.jpg'', data = [1, 2, 3]\<rparr>)]\<rparr>
      \<lparr>images = [], uploads = [], reachable = True\<rparr> =
     (\<lparr>status = 500, json = ErrorPage (MulterError ''Unexpected field'')\<rparr>,
      \<lparr>images = [], uploads = [], reachable = True\<rparr>) \<and>
   json (fst (post_image \<lparr>date_now = 1700000000000, new_date = 1700000000005, new_objectid = 2748\<rparr>
      \<lparr>params_id = [],
       content = Multipart [(''name'', JStr ''Cat'')]
         [(''photo'', \<lparr>originalname = ''cat.jpg'', data = [1, 2, 3]\<rparr>)]\<rparr>
      \<lparr>images = [], uploads = [], reachable = True\<rparr>)) \<noteq>
     Message (message (TypeError (cannot_read ''filename'')))"
  by (simp add: post_image_def upload_single_def unexpected_field_message_def)

text \<open>
  C8, amended. A create request whose multipart body has no file part fails on reading
  \<^verbatim>\<open>req.file.filename\<close>: the handler answers 500 with that error's message. When the
  body has file parts but none named \<^verbatim>\<open>image\<close>, the upload middleware refuses the
  first of them and the request is answered 500 by the framework's error handler. In
  both cases neither the collection nor the upload directory changes.
\<close>

theorem post_image_without_image_part:
  assumes "content req = Multipart flds files" and "''image'' \<notin> set (map fst files)"
  shows "(files = [] \<longrightarrow>
            post_image e req s =
              (\<lparr>status = 500, json = Message (message (TypeError (cannot_read ''filename'')))\<rparr>, s)) \<and>
         (files \<noteq> [] \<longrightarrow>
            post_image e req s =
              (\<lparr>status = 500, json = ErrorPage (MulterError unexpected_field_message)\<rparr>, s)) \<and>
         status (fst (post_image e req s)) = 500 \<and>
         images (snd (post_image e req s)) = images s \<and>
         uploads (snd (post_image e req s)) = uploads s"
proof (cases "files = []")
  case True
  with assms(1) show ?thesis
    using post_image_no_file [of req flds e s] by simp
next
  case False
  with assms show ?thesis
    using post_image_unexpected_field [of req flds files e s] by simp
qed

theorem post_image_without_image_part_witness:
  "content \<lparr>params_id = [], content = Multipart [(''name'', JStr ''Cat'')] []\<rparr> =
     Multipart [(''name'', JStr ''Cat'')] [] \<and>
   ''image'' \<notin> set (map fst ([] :: (string \<times> upload) list)) \<and>
   post_image \<lparr>date_now = 1700000000000, new_date = 1700000000005, new_objectid = 2748\<rparr>
      \<lparr>params_id = [], content = Multipart [(''name'', JStr ''Cat'')] []\<rparr>
      \<lparr>images = [], uploads = [], reachable = True\<rparr> =
     (\<lparr>status = 500, json = Message (cannot_read ''filename'')\<rparr>,
      \<lparr>images = [], uploads = [], reachable = True\<rparr>) \<and>
   content \<lparr>params_id = [],
       content = Multipart [(''name'', JStr ''Cat'')]
         [(''photo'', \<lparr>originalname = ''cat.jpg'', data = [1, 2, 3]\<rparr>)]\<rparr> =
     Multipart [(''name'', JStr ''Cat'')]
         [(''photo'', \<lparr>originalname = ''cat.jpg'', data = [1, 2, 3]\<rparr>)] \<and>
   ''image'' \<notin> set (map fst [(''photo'', \<lparr>originalname = ''cat.jpg'', data = [1, 2, 3]\<rparr>)]) \<and>
   post_image \<lparr>date_now = 1700000000000, new_date = 1700000000005, new_objectid = 2748\<rparr>
      \<lparr>params_id = [],
       content = Multipart [(''name'', JStr ''Cat'')]
         [(''photo'', \<lparr>originalname = ''cat.jpg'', data = [1, 2, 3]\<rparr>)]\<rparr>
      \<lparr>images = [], uploads = [], reachable = True\<rparr> =
     (\<lparr>status = 500, json = ErrorPage (MulterError unexpected_field_message)\<rparr>,
      \<lparr>images = [], uploads = [], reachable = True\<rparr>)"
  (is "?h1 \<and> ?h2 \<and> ?c1 \<and> ?h3 \<and> ?h4 \<and> ?c2")
proof -
  have h1: ?h1 by simp
  have h2: ?h2 by simp
  have h3: ?h3 by simp
  have h4: ?h4 by simp
  from post_image_without_image_part [OF h1 h2] have ?c1 by simp
  moreover from post_image_without_image_part [OF h3 h4] have ?c2 by simp
  ultimately show ?thesis using h1 h2 h3 h4 by blast
qed

text \<open>
  C7. Two uploads of files with the same original name that arrive in the same
  millisecond get the same stored name: both requests are answered 201, both documents
  point to the one path, and the file there holds the bytes of the second upload only.
  (By \<open>storage_filename_eq_iff\<close> names differ as soon as the milliseconds do.)
\<close>

theorem same_millisecond_uploads_collide:
  "(let e1 = \<lparr>date_now = 1700000000000, new_date = 1700000000001, new_objectid = 1\<rparr>;
        e2 = \<lparr>date_now = 1700000000000, new_date = 1700000000002, new_objectid = 2\<rparr>;
        r1 = \<lparr>params_id = [],
              content = Multipart [(''name'', JStr ''Cat'')]
                [(''image'', \<lparr>originalname = ''cat.jpg'', data = [1, 2, 3]\<rparr>)]\<rparr>;
        r2 = \<lparr>params_id = [],
              content = Multipart [(''name'', JStr ''Lynx'')]
                [(''image'', \<lparr>originalname = ''cat.jpg'', data = [4, 5, 6]\<rparr>)]\<rparr>;
        s0 = \<lparr>images = [], uploads = [], reachable = True\<rparr>;
        (res1, s1) = post_image e1 r1 s0;
        (res2, s2) = post_image e2 r2 s1
    in status res1 = 201 \<and> status res2 = 201 \<and>
       map (\<lambda>d. (js_get d ''name'', js_get d ''imagePath'')) (images s2) =
         [(JStr ''Cat'', JStr ''/uploads/1700000000000-cat.jpg''),
          (JStr ''Lynx'', JStr ''/uploads/1700000000000-cat.jpg'')] \<and>
       uploads s1 = [(''uploads/1700000000000-cat.jpg'', [1, 2, 3])] \<and>
       uploads s2 = [(''uploads/1700000000000-cat.jpg'', [4, 5, 6])])"
  by (simp add: Let_def post_image_def upload_single_def storage_filename_def
      string_of_nat_example destination_def imageData_def insertOne_def assign_id_def
      serialize_def js_get_def js_or_def)

section \<open>Read\<close>

text \<open>
  C4. For a well-formed identifier and a reachable store, get-by-id answers 404 with the
  fixed message \<^verbatim>\<open>Image not found\<close> when no document has the identifier, and 200
  with the first document that has it otherwise.
\<close>

theorem get_image_found_or_404:
  assumes "ObjectId (params_id req) = Inr i" and "reachable s"
  shows "(find (has_id i) (images s) = None \<longrightarrow>
            get_image req s = (\<lparr>status = 404, json = Message ''Image not found''\<rparr>, s)) \<and>
         (\<forall>d. find (has_id i) (images s) = Some d \<longrightarrow>
            get_image req s = (\<lparr>status = 200, json = Document d\<rparr>, s) \<and>
            d \<in> set (images s) \<and> js_get d ''_id'' = JOid i)"
  using assms by (auto simp: get_image_def findOne_def dest: find_has_id)

theorem get_image_found_or_404_witness:
  "ObjectId (params_id \<lparr>params_id = ''000000000000000000000abc'', content = NoBody\<rparr>) = Inr 2748 \<and>
   reachable \<lparr>images = [[(''_id'', JOid 2748), (''name'', JStr ''Cat'')]], uploads = [], reachable = True\<rparr> \<and>
   reachable \<lparr>images = [], uploads = [], reachable = True\<rparr> \<and>
   get_image \<lparr>params_id = ''000000000000000000000abc'', content = NoBody\<rparr>
      \<lparr>images = [[(''_id'', JOid 2748), (''name'', JStr ''Cat'')]], uploads = [], reachable = True\<rparr> =
     (\<lparr>status = 200, json = Document [(''_id'', JOid 2748), (''name'', JStr ''Cat'')]\<rparr>,
      \<lparr>images = [[(''_id'', JOid 2748), (''name'', JStr ''Cat'')]], uploads = [], reachable = True\<rparr>) \<and>
   get_image \<lparr>params_id = ''000000000000000000000abc'', content = NoBody\<rparr>
      \<lparr>images = [], uploads = [], reachable = True\<rparr> =
     (\<lparr>status = 404, json = Message ''Image not found''\<rparr>,
      \<lparr>images = [], uploads = [], reachable = True\<rparr>)"
  (is "?h1 \<and> ?h2 \<and> ?h3 \<and> ?c1 \<and> ?c2")
proof -
  have h1: ?h1 by (simp add: ObjectId_example)
  have h2: ?h2 by simp
  have h3: ?h3 by simp
  from get_image_found_or_404 [OF h1 h2] have ?c1 by (simp add: has_id_def)
  moreover from get_image_found_or_404 [OF h1 h3] have ?c2 by simp
  ultimately show ?thesis using h1 h2 h3 by blast
qed

text \<open>
  C5. For an identifier the ObjectId constructor rejects, get-by-id answers 500 with the
  constructor's error message; the answer is not 404, and the store is not consulted.
\<close>

theorem get_image_malformed_id_500:
  assumes "\<not> (\<exists>i. ObjectId (params_id req) = Inr i)"
  shows "get_image req s = (\<lparr>status = 500, json = Message invalid_id_message\<rparr>, s) \<and>
         (\<exists>err. ObjectId (params_id req) = Inl err \<and> message err = invalid_id_message) \<and>
         status (fst (get_image req s)) \<noteq> 404"
proof -
  from assms obtain err where err: "ObjectId (params_id req) = Inl err"
    by (cases "ObjectId (params_id req)") auto
  then have "err = BSONError invalid_id_message"
    by (rule ObjectId_error)
  with err show ?thesis
    by (simp add: get_image_def)
qed

theorem get_image_malformed_id_500_witness:
  "\<not> (\<exists>i. ObjectId (params_id \<lparr>params_id = ''65abc123'', content = NoBody\<rparr>) = Inr i) \<and>
   get_image \<lparr>params_id = ''65abc123'', content = NoBody\<rparr>
      \<lparr>images = [], uploads = [], reachable = True\<rparr> =
     (\<lparr>status = 500,
       json = Message ''input must be a 24 character hex string, 12 byte Uint8Array, or an integer''\<rparr>,
      \<lparr>images = [], uploads = [], reachable = True\<rparr>)"
  (is "?h1 \<and> ?c")
proof -
  have h1: ?h1 by (simp add: ObjectId_def)
  from get_image_malformed_id_500 [OF h1] have ?c by (simp add: invalid_id_message_def)
  with h1 show ?thesis by blast
qed

text \<open>
  C10. List and get-by-id leave the state (collection, upload directory, reachability)
  as it was, so a repeated call, in any order, gives the same answer.
\<close>

theorem reads_leave_state:
  "snd (get_images req s) = s \<and> snd (get_image req s) = s \<and>
   get_images req (snd (get_images req s)) = get_images req s \<and>
   get_image req (snd (get_image req s)) = get_image req s \<and>
   get_images req (snd (get_image req' s)) = get_images req s \<and>
   get_image req (snd (get_images req' s)) = get_image req s"
proof -
  have a: "snd (get_images r s) = s" for r
    by (simp add: get_images_def find_toArray_def)
  have b: "snd (get_image r s) = s" for r
    by (simp add: get_image_def split: sum.splits option.splits)
  show ?thesis by (simp add: a b)
qed

theorem reads_leave_state_witness:
  "snd (get_images \<lparr>params_id = ''65abc123'', content = NoBody\<rparr>
      \<lparr>images = [[(''_id'', JOid 7), (''name'', JStr ''Cat'')]], uploads = [], reachable = True\<rparr>) =
     \<lparr>images = [[(''_id'', JOid 7), (''name'', JStr ''Cat'')]], uploads = [], reachable = True\<rparr> \<and>
   snd (get_image \<lparr>params_id = ''65abc123'', content = NoBody\<rparr>
      \<lparr>images = [[(''_id'', JOid 7), (''name'', JStr ''Cat'')]], uploads = [], reachable = True\<rparr>) =
     \<lparr>images = [[(''_id'', JOid 7), (''name'', JStr ''Cat'')]], uploads = [], reachable = True\<rparr>"
  using reads_leave_state
    [of "\<lparr>params_id = ''65abc123'', content = NoBody\<rparr>"
        "\<lparr>images = [[(''_id'', JOid 7), (''name'', JStr ''Cat'')]], uploads = [], reachable = True\<rparr>"]
  by blast

section \<open>Update\<close>

lemma update_set_keys:
  "map fst (update_set b) = [''name'', ''type'', ''description'', ''color'', ''lifespan'']"
  by (simp add: update_set_def)

lemma has_id_apply_set: "has_id i (apply_set (serialize (update_set b)) d) = has_id i d"
  unfolding has_id_def
  by (subst map_of_apply_set_other) (simp_all add: update_set_def serialize_def)

lemma put_image_updateOne:
  "content req = JsonBody b \<Longrightarrow> ObjectId (params_id req) = Inr i \<Longrightarrow> reachable s \<Longrightarrow>
   \<exists>r s'. updateOne i (update_set b) s = Inr (r, s') \<and>
     put_image req s = (\<lparr>status = 200, json = UpdateResult r\<rparr>, s')"
  by (auto simp: put_image_def express_json_def updateOne_def split: option.splits)

lemma put_image_no_json_body:
  assumes "ObjectId (params_id req) = Inr i" and "express_json req = None"
  shows "put_image req s = (\<lparr>status = 500, json = Message (cannot_read ''name'')\<rparr>, s)"
  using assms by (simp add: put_image_def)

lemma map_of_apply_update_set:
  "k \<in> set [''name'', ''type'', ''description'', ''color'', ''lifespan''] \<Longrightarrow>
   map_of (apply_set (serialize (update_set b)) d) k = Some (bson_value (js_get b k))"
  by (auto simp: update_set_def serialize_def map_of_put_key)

lemma map_of_apply_update_set_other:
  "k \<notin> set [''name'', ''type'', ''description'', ''color'', ''lifespan''] \<Longrightarrow>
   map_of (apply_set (serialize (update_set b)) d) k = map_of d k"
  by (rule map_of_apply_set_other) (simp add: update_set_def serialize_def)

lemma images_put_image:
  "images (snd (put_image req s)) = images s \<or>
   (\<exists>i b. images (snd (put_image req s)) =
      update_first (has_id i) (apply_set (serialize (update_set b))) (images s))"
  by (auto simp: put_image_def updateOne_def split: sum.splits option.splits)

lemma server_rest_put_image:
  "uploads (snd (put_image req s)) = uploads s \<and> reachable (snd (put_image req s)) = reachable s"
  by (auto simp: put_image_def updateOne_def split: sum.splits option.splits)

lemma length_images_put_image:
  "length (images (snd (put_image req s))) = length (images s)"
  using images_put_image [of req s] by (auto simp: length_update_first)

lemma nth_images_put_image:
  assumes "j < length (images s)"
    and "k \<notin> set [''name'', ''type'', ''description'', ''color'', ''lifespan'']"
  shows "map_of (images (snd (put_image req s)) ! j) k = map_of (images s ! j) k"
proof -
  from images_put_image [of req s] show ?thesis
  proof
    assume "images (snd (put_image req s)) = images s"
    then show ?thesis by simp
  next
    assume "\<exists>i b. images (snd (put_image req s)) =
        update_first (has_id i) (apply_set (serialize (update_set b))) (images s)"
    then obtain i b where "images (snd (put_image req s)) =
        update_first (has_id i) (apply_set (serialize (update_set b))) (images s)"
      by blast
    moreover from assms(1)
    have "update_first (has_id i) (apply_set (serialize (update_set b))) (images s) ! j =
            images s ! j \<or>
          update_first (has_id i) (apply_set (serialize (update_set b))) (images s) ! j =
            apply_set (serialize (update_set b)) (images s ! j)"
      by (rule nth_update_first)
    ultimately show ?thesis
      using map_of_apply_update_set_other [OF assms(2)] by auto
  qed
qed

lemma find_images_put_image:
  assumes "ObjectId (params_id req) = Inr i" and "find (has_id i) (images s) = Some d"
  shows "find (has_id i) (images (snd (put_image req s))) =
     Some (case express_json req of
             None \<Rightarrow> d
           | Some b \<Rightarrow> if reachable s then apply_set (serialize (update_set b)) d else d)"
proof (cases "express_json req")
  case None
  with assms show ?thesis
    by (simp add: put_image_def)
next
  case (Some b)
  show ?thesis
  proof (cases "reachable s")
    case True
    with assms Some have "images (snd (put_image req s)) =
        update_first (has_id i) (apply_set (serialize (update_set b))) (images s)"
      by (simp add: put_image_def updateOne_def)
    with assms(2) True Some show ?thesis
      by (simp add: find_update_first has_id_apply_set)
  next
    case False
    with assms Some show ?thesis
      by (simp add: put_image_def updateOne_def)
  qed
qed

text \<open>
  C2. The \<^verbatim>\<open>$set\<close> document of an update always has the five keys
  \<^verbatim>\<open>name\<close>, \<^verbatim>\<open>type\<close>, \<^verbatim>\<open>description\<close>, \<^verbatim>\<open>color\<close>, \<^verbatim>\<open>lifespan\<close>,
  whatever the body holds. For a request with a JSON body and a well-formed identifier,
  on a reachable store, the answer is 200 with the result of \<^verbatim>\<open>updateOne\<close> (matched
  count 1 exactly when a document has the identifier, modified count at most the
  matched count), and in the matched document each of the five fields then holds the
  body's value: a field the body omits is overwritten with null, the store's encoding of
  undefined, instead of keeping its value.
\<close>

theorem put_image_sets_five_keys:
  "map fst (update_set b) = [''name'', ''type'', ''description'', ''color'', ''lifespan''] \<and>
   (content req = JsonBody b \<and> ObjectId (params_id req) = Inr i \<and> reachable s \<longrightarrow>
     (\<exists>r s'. put_image req s = (\<lparr>status = 200, json = UpdateResult r\<rparr>, s') \<and>
       updateOne i (update_set b) s = Inr (r, s') \<and>
       matchedCount r = (if find (has_id i) (images s) = None then 0 else 1) \<and>
       modifiedCount r \<le> matchedCount r \<and>
       (\<forall>d. find (has_id i) (images s) = Some d \<longrightarrow>
          (\<exists>d'. find (has_id i) (images s') = Some d' \<and>
             (\<forall>k \<in> set [''name'', ''type'', ''description'', ''color'', ''lifespan''].
                map_of d' k = Some (bson_value (js_get b k)) \<and>
                (map_of b k = None \<longrightarrow> map_of d' k = Some JNull))))))"
proof (intro conjI impI)
  show "map fst (update_set b) = [''name'', ''type'', ''description'', ''color'', ''lifespan'']"
    by (rule update_set_keys)
next
  assume "content req = JsonBody b \<and> ObjectId (params_id req) = Inr i \<and> reachable s"
  then have js: "content req = JsonBody b" and wf: "ObjectId (params_id req) = Inr i"
    and up: "reachable s"
    by simp_all
  from js have parsed: "express_json req = Some b"
    by (simp add: express_json_def)
  from put_image_updateOne [OF js wf up] obtain r s'
    where upd: "updateOne i (update_set b) s = Inr (r, s')"
      and run: "put_image req s = (\<lparr>status = 200, json = UpdateResult r\<rparr>, s')"
    by blast
  from upd up have matched: "matchedCount r = (if find (has_id i) (images s) = None then 0 else 1)"
    by (auto simp: updateOne_def split: option.splits)
  from upd up have modified: "modifiedCount r \<le> matchedCount r"
    by (auto simp: updateOne_def split: option.splits)
  have stored: "\<exists>d'. find (has_id i) (images s') = Some d' \<and>
             (\<forall>k \<in> set [''name'', ''type'', ''description'', ''color'', ''lifespan''].
                map_of d' k = Some (bson_value (js_get b k)) \<and>
                (map_of b k = None \<longrightarrow> map_of d' k = Some JNull))"
    if d: "find (has_id i) (images s) = Some d" for d
  proof -
    let ?d' = "apply_set (serialize (update_set b)) d"
    from find_images_put_image [OF wf d] run up parsed
    have "find (has_id i) (images s') = Some ?d'" by simp
    moreover have "map_of ?d' k = Some (bson_value (js_get b k)) \<and>
                (map_of b k = None \<longrightarrow> map_of ?d' k = Some JNull)"
      if "k \<in> set [''name'', ''type'', ''description'', ''color'', ''lifespan'']" for k
      using map_of_apply_update_set [OF that] by (simp add: js_get_def)
    ultimately show ?thesis by blast
  qed
  from upd run matched modified stored
  show "\<exists>r s'. put_image req s = (\<lparr>status = 200, json = UpdateResult r\<rparr>, s') \<and>
       updateOne i (update_set b) s = Inr (r, s') \<and>
       matchedCount r = (if find (has_id i) (images s) = None then 0 else 1) \<and>
       modifiedCount r \<le> matchedCount r \<and>
       (\<forall>d. find (has_id i) (images s) = Some d \<longrightarrow>
          (\<exists>d'. find (has_id i) (images s') = Some d' \<and>
             (\<forall>k \<in> set [''name'', ''type'', ''description'', ''color'', ''lifespan''].
                map_of d' k = Some (bson_value (js_get b k)) \<and>
                (map_of b k = None \<longrightarrow> map_of d' k = Some JNull))))"
    by blast
qed

theorem put_image_sets_five_keys_witness:
  "content \<lparr>params_id = ''000000000000000000000abc'',
       content = JsonBody [(''name'', JStr ''Updated Cat'')]\<rparr> =
     JsonBody [(''name'', JStr ''Updated Cat'')] \<and>
   ObjectId (params_id \<lparr>params_id = ''000000000000000000000abc'',
       content = JsonBody [(''name'', JStr ''Updated Cat'')]\<rparr>) = Inr 2748 \<and>
   reachable \<lparr>images = [[(''_id'', JOid 2748), (''name'', JStr ''Cat''), (''type'', JStr ''Mammal'')]],
       uploads = [], reachable = True\<rparr> \<and>
   put_image \<lparr>params_id = ''000000000000000000000abc'',
       content = JsonBody [(''name'', JStr ''Updated Cat'')]\<rparr>
      \<lparr>images = [[(''_id'', JOid 2748), (''name'', JStr ''Cat''), (''type'', JStr ''Mammal'')]],
       uploads = [], reachable = True\<rparr> =
     (\<lparr>status = 200,
       json = UpdateResult \<lparr>upd_acknowledged = True, matchedCount = 1, modifiedCount = 1,
                            upsertedCount = 0, upsertedId = JNull\<rparr>\<rparr>,
      \<lparr>images = [[(''_id'', JOid 2748), (''name'', JStr ''Updated Cat''), (''type'', JNull),
                  (''description'', JNull), (''color'', JNull), (''lifespan'', JNull)]],
       uploads = [], reachable = True\<rparr>)"
  (is "?h0 \<and> ?h1 \<and> ?h2 \<and> ?c")
proof -
  have h0: ?h0 by simp
  have h1: ?h1 by (simp add: ObjectId_example)
  have h2: ?h2 by simp
  from put_image_sets_five_keys
    [where req = "\<lparr>params_id = ''000000000000000000000abc'',
       content = JsonBody [(''name'', JStr ''Updated Cat'')]\<rparr>"
      and b = "[(''name'', JStr ''Updated Cat'')]"
      and i = 2748
      and s = "\<lparr>images = [[(''_id'', JOid 2748), (''name'', JStr ''Cat''), (''type'', JStr ''Mammal'')]],
       uploads = [], reachable = True\<rparr>"] h0 h1 h2
  have ?c
    by (auto simp: updateOne_def update_set_def serialize_def has_id_def js_get_def)
  with h0 h1 h2 show ?thesis by blast
qed

text \<open>
  C3. An update that names an existing identifier leaves \<^verbatim>\<open>_id\<close>,
  \<^verbatim>\<open>imagePath\<close>, \<^verbatim>\<open>createdAt\<close> and \<^verbatim>\<open>lifeSpan\<close> of that document as they
  were, and so every field outside the \<^verbatim>\<open>$set\<close> keys: the key written is
  \<^verbatim>\<open>lifespan\<close>, not \<^verbatim>\<open>lifeSpan\<close>. The collection keeps its length, every
  document keeps its fields outside those keys, and the upload directory is untouched.
  This holds whatever the request's content is and whether or not the store is reached.
\<close>

theorem put_image_frame:
  assumes "ObjectId (params_id req) = Inr i" and "find (has_id i) (images s) = Some d"
  shows "(\<exists>d'. find (has_id i) (images (snd (put_image req s))) = Some d' \<and>
        map_of d' ''_id'' = map_of d ''_id'' \<and>
        map_of d' ''imagePath'' = map_of d ''imagePath'' \<and>
        map_of d' ''createdAt'' = map_of d ''createdAt'' \<and>
        map_of d' ''lifeSpan'' = map_of d ''lifeSpan'' \<and>
        (\<forall>k. k \<notin> set (map fst (update_set b)) \<longrightarrow> map_of d' k = map_of d k)) \<and>
     ''lifespan'' \<in> set (map fst (update_set b)) \<and>
     ''lifeSpan'' \<notin> set (map fst (update_set b)) \<and>
     length (images (snd (put_image req s))) = length (images s) \<and>
     (\<forall>j < length (images s). \<forall>k. k \<notin> set (map fst (update_set b)) \<longrightarrow>
        map_of (images (snd (put_image req s)) ! j) k = map_of (images s ! j) k) \<and>
     uploads (snd (put_image req s)) = uploads s"
proof -
  let ?d' = "case express_json req of
             None \<Rightarrow> d
           | Some c \<Rightarrow> if reachable s then apply_set (serialize (update_set c)) d else d"
  have keys: "set (map fst (update_set b)) =
      set [''name'', ''type'', ''description'', ''color'', ''lifespan'']"
    by (simp only: update_set_keys)
  have other: "map_of ?d' k = map_of d k" if "k \<notin> set (map fst (update_set b))" for k
  proof -
    have "k \<notin> set [''name'', ''type'', ''description'', ''color'', ''lifespan'']"
      using that unfolding keys .
    then have "map_of (apply_set (serialize (update_set c)) d) k = map_of d k" for c
      by (rule map_of_apply_update_set_other)
    then show ?thesis
      by (simp split: option.splits)
  qed
  have found: "find (has_id i) (images (snd (put_image req s))) = Some ?d'"
    by (rule find_images_put_image [OF assms])
  have "map_of ?d' ''_id'' = map_of d ''_id''"
    and "map_of ?d' ''imagePath'' = map_of d ''imagePath''"
    and "map_of ?d' ''createdAt'' = map_of d ''createdAt''"
    and "map_of ?d' ''lifeSpan'' = map_of d ''lifeSpan''"
    by (rule other, simp add: update_set_def)+
  with found other
  have first: "\<exists>d'. find (has_id i) (images (snd (put_image req s))) = Some d' \<and>
        map_of d' ''_id'' = map_of d ''_id'' \<and>
        map_of d' ''imagePath'' = map_of d ''imagePath'' \<and>
        map_of d' ''createdAt'' = map_of d ''createdAt'' \<and>
        map_of d' ''lifeSpan'' = map_of d ''lifeSpan'' \<and>
        (\<forall>k. k \<notin> set (map fst (update_set b)) \<longrightarrow> map_of d' k = map_of d k)"
    by blast
  have spelling: "''lifespan'' \<in> set (map fst (update_set b)) \<and>
     ''lifeSpan'' \<notin> set (map fst (update_set b))"
    by (simp add: update_set_def)
  have every: "\<forall>j < length (images s). \<forall>k. k \<notin> set (map fst (update_set b)) \<longrightarrow>
        map_of (images (snd (put_image req s)) ! j) k = map_of (images s ! j) k"
    using nth_images_put_image [of _ s _ req] by (simp only: keys) blast
  from first spelling length_images_put_image [of req s] every server_rest_put_image [of req s]
  show ?thesis by blast
qed

theorem put_image_frame_witness:
  "ObjectId (params_id \<lparr>params_id = ''000000000000000000000abc'',
       content = JsonBody [(''name'', JStr ''Updated Cat''), (''lifespan'', JStr ''15 years'')]\<rparr>) =
     Inr 2748 \<and>
   find (has_id 2748)
     (images \<lparr>images = [[(''_id'', JOid 2748), (''name'', JStr ''Cat''),
                          (''lifeSpan'', JStr ''12 years''),
                          (''imagePath'', JStr ''/uploads/1700000000000-cat.jpg''),
                          (''createdAt'', JDate 1700000000005)]],
       uploads = [], reachable = True\<rparr>) =
     Some [(''_id'', JOid 2748), (''name'', JStr ''Cat''), (''lifeSpan'', JStr ''12 years''),
           (''imagePath'', JStr ''/uploads/1700000000000-cat.jpg''),
           (''createdAt'', JDate 1700000000005)] \<and>
   (\<exists>d'. find (has_id 2748)
       (images (snd (put_image
          \<lparr>params_id = ''000000000000000000000abc'',
           content = JsonBody [(''name'', JStr ''Updated Cat''), (''lifespan'', JStr ''15 years'')]\<rparr>
          \<lparr>images = [[(''_id'', JOid 2748), (''name'', JStr ''Cat''),
                      (''lifeSpan'', JStr ''12 years''),
                      (''imagePath'', JStr ''/uploads/1700000000000-cat.jpg''),
                      (''createdAt'', JDate 1700000000005)]],
           uploads = [], reachable = True\<rparr>))) = Some d' \<and>
      map_of d' ''_id'' = Some (JOid 2748) \<and>
      map_of d' ''imagePath'' = Some (JStr ''/uploads/1700000000000-cat.jpg'') \<and>
      map_of d' ''createdAt'' = Some (JDate 1700000000005) \<and>
      map_of d' ''lifeSpan'' = Some (JStr ''12 years''))"
  (is "?h1 \<and> ?h2 \<and> ?c")
proof -
  have h1: ?h1 by (simp add: ObjectId_example)
  have h2: ?h2 by (simp add: has_id_def)
  from put_image_frame [OF h1 h2, where b = "[]"] have ?c by auto
  with h1 h2 show ?thesis by blast
qed

text \<open>
  C6. An update with a JSON body and a well-formed identifier that no document has, on a
  reachable store, is answered 200 with matched and modified count 0; the state is
  unchanged (no upsert), and the answer is not 404. (Without a JSON body the handler
  raises on \<^verbatim>\<open>req.body.name\<close> and answers 500: \<open>put_image_no_json_body\<close>.)
\<close>

theorem put_image_missing_id_200:
  assumes "content req = JsonBody b" and "ObjectId (params_id req) = Inr i"
    and "reachable s" and "find (has_id i) (images s) = None"
  shows "put_image req s =
       (\<lparr>status = 200,
         json = UpdateResult \<lparr>upd_acknowledged = True, matchedCount = 0, modifiedCount = 0,
                              upsertedCount = 0, upsertedId = JNull\<rparr>\<rparr>, s) \<and>
     images (snd (put_image req s)) = images s \<and>
     status (fst (put_image req s)) \<noteq> 404"
  using assms by (simp add: put_image_def express_json_def updateOne_def)

theorem put_image_missing_id_200_witness:
  "content \<lparr>params_id = ''000000000000000000000abc'',
       content = JsonBody [(''name'', JStr ''Updated Cat'')]\<rparr> =
     JsonBody [(''name'', JStr ''Updated Cat'')] \<and>
   ObjectId (params_id \<lparr>params_id = ''000000000000000000000abc'',
       content = JsonBody [(''name'', JStr ''Updated Cat'')]\<rparr>) = Inr 2748 \<and>
   reachable \<lparr>images = [[(''_id'', JOid 7), (''name'', JStr ''Cat'')]], uploads = [], reachable = True\<rparr> \<and>
   find (has_id 2748)
     (images \<lparr>images = [[(''_id'', JOid 7), (''name'', JStr ''Cat'')]], uploads = [], reachable = True\<rparr>) = None \<and>
   put_image \<lparr>params_id = ''000000000000000000000abc'',
       content = JsonBody [(''name'', JStr ''Updated Cat'')]\<rparr>
      \<lparr>images = [[(''_id'', JOid 7), (''name'', JStr ''Cat'')]], uploads = [], reachable = True\<rparr> =
     (\<lparr>status = 200,
       json = UpdateResult \<lparr>upd_acknowledged = True, matchedCount = 0, modifiedCount = 0,
                            upsertedCount = 0, upsertedId = JNull\<rparr>\<rparr>,
      \<lparr>images = [[(''_id'', JOid 7), (''name'', JStr ''Cat'')]], uploads = [], reachable = True\<rparr>)"
  (is "?h0 \<and> ?h1 \<and> ?h2 \<and> ?h3 \<and> ?c")
proof -
  have h0: ?h0 by simp
  have h1: ?h1 by (simp add: ObjectId_example)
  have h2: ?h2 by simp
  have h3: ?h3 by (simp add: has_id_def)
  from put_image_missing_id_200 [OF h0 h1 h2 h3] have ?c by simp
  with h0 h1 h2 h3 show ?thesis by blast
qed

end
